theory Spec2Isabelle
  imports Main "HOL-Library.AList"
begin

section \<open>The Rosenpass internal tunnel hub (containers/rosenpass/app.py)\<close>

text \<open>
  A shallow embedding of the class \<open>RosenpassInternalVPN\<close> and of the HTTP endpoints
  that read it. Python \<open>bytes\<close> and \<open>str\<close> are both lists of \<open>char\<close>; the two
  dictionaries of the hub are association lists kept by \<open>AList.update\<close> and
  \<open>AList.delete\<close>, which keep insertion order and replace in place as a Python
  dictionary does; every \<open>except Exception\<close> of the source is a branch of the model.
\<close>

subsection \<open>Values and the libraries the hub calls\<close>

type_synonym bytes = string
type_synonym service_id = string
type_synonym sock = nat

text \<open>
  JSON values as \<open>json.loads\<close> and \<open>request.get_json\<close> deliver them. A finite float
  is \<open>JFloat m e\<close>, standing for \<open>m * 2 ^ e\<close>.
\<close>

datatype jval =
    JNull
  | JBool bool
  | JInt int
  | JFloat int int
  | JStr string
  | JArr "jval list"
  | JObj "(string \<times> jval) list"

text \<open>
  The object \<open>oqs.KeyEncapsulation(alg)\<close>: what \<open>generate_keypair()\<close> returns
  (\<open>None\<close> when it raises) and \<open>decap_secret\<close> (\<open>None\<close> when it raises).
\<close>

record kem_obj =
  generate_keypair :: "bytes option"
  decap_secret :: "bytes \<Rightarrow> bytes option"

text \<open>
  The libraries, as parameters. \<open>None\<close> stands for a raised exception.
  \<^item> \<open>quantum_available\<close>: the module constant \<open>QUANTUM_AVAILABLE\<close> (\<open>import oqs\<close> worked);
  \<^item> \<open>oqs_KeyEncapsulation\<close>: the constructor, by algorithm name;
  \<^item> \<open>sha256\<close>: the digest of \<open>hashlib.sha256\<close>;
  \<^item> \<open>b64decode\<close>: \<open>base64.b64decode\<close> on a \<open>str\<close>;
  \<^item> \<open>gcm_encrypt key iv plaintext\<close>: AES-GCM of the \<open>cryptography\<close> package, giving
    the ciphertext and \<open>encryptor.tag\<close>; \<open>gcm_decrypt key iv tag ciphertext\<close>;
  \<^item> \<open>utf8_encode\<close>, \<open>utf8_decode\<close>: \<open>str.encode()\<close> and \<open>bytes.decode()\<close>;
  \<^item> \<open>json_loads\<close>: \<open>json.loads\<close>.
\<close>

record lib =
  quantum_available :: bool
  oqs_KeyEncapsulation :: "string \<Rightarrow> kem_obj option"
  sha256 :: "bytes \<Rightarrow> bytes"
  b64decode :: "string \<Rightarrow> bytes option"
  gcm_encrypt :: "bytes \<Rightarrow> bytes \<Rightarrow> bytes \<Rightarrow> (bytes \<times> bytes) option"
  gcm_decrypt :: "bytes \<Rightarrow> bytes \<Rightarrow> bytes \<Rightarrow> bytes \<Rightarrow> bytes option"
  utf8_encode :: "string \<Rightarrow> bytes option"
  utf8_decode :: "bytes \<Rightarrow> string option"
  json_loads :: "string \<Rightarrow> jval option"

subsection \<open>Text and byte helpers of the Python runtime\<close>

definition b64char :: "nat \<Rightarrow> char" where
  "b64char i =
     ''ABCDEFGHIJKLMNOPQRSTUVWXYZabcdefghijklmnopqrstuvwxyz0123456789+/'' ! (i mod 64)"

text \<open>\<open>base64.b64encode(data).decode()\<close>: the standard alphabet, padded with \<open>=\<close>.\<close>

fun b64encode :: "bytes \<Rightarrow> string" where
  "b64encode (a # b # c # rest) =
     (let n = of_char a * 65536 + of_char b * 256 + (of_char c :: nat)
      in [b64char (n div 262144), b64char (n div 4096), b64char (n div 64), b64char n]
         @ b64encode rest)"
| "b64encode [a, b] =
     (let n = of_char a * 65536 + of_char b * (256 :: nat)
      in [b64char (n div 262144), b64char (n div 4096), b64char (n div 64), CHR ''='']) "
| "b64encode [a] =
     (let n = of_char a * (65536 :: nat)
      in [b64char (n div 262144), b64char (n div 4096), CHR ''='', CHR ''=''])"
| "b64encode [] = []"

definition hexchar :: "nat \<Rightarrow> char" where
  "hexchar i = ''0123456789abcdef'' ! (i mod 16)"

text \<open>\<open>hexdigest()\<close>: two lower-case hexadecimal digits per byte.\<close>

definition hexdigest :: "bytes \<Rightarrow> string" where
  "hexdigest d = concat (map (\<lambda>c. [hexchar (of_char c div 16), hexchar (of_char c)]) d)"

text \<open>The characters \<open>str.isspace()\<close> accepts, among the code points below 256.\<close>

definition is_space :: "char \<Rightarrow> bool" where
  "is_space c = ((of_char c :: nat) \<in> {9, 10, 11, 12, 13, 28, 29, 30, 31, 32, 133, 160})"

definition strip :: "string \<Rightarrow> string" where
  "strip s = rev (dropWhile is_space (rev (dropWhile is_space s)))"

definition startswith :: "string \<Rightarrow> string \<Rightarrow> bool" where
  "startswith s p = (take (length p) s = p)"

text \<open>\<open>s.split(":", 1)[1]\<close>: what follows the first colon; \<open>None\<close> is the IndexError.\<close>

definition after_first_colon :: "string \<Rightarrow> string option" where
  "after_first_colon s =
     (if CHR '':'' \<in> set s then Some (tl (dropWhile (\<lambda>c. c \<noteq> CHR '':'') s)) else None)"

subsection \<open>The hub object, the sockets and the entropy source\<close>

record service_info =
  socket :: sock
  address :: "string \<times> nat"
  connected_at :: string
  encryption :: string

text \<open>
  A socket of the process: whether \<open>close()\<close> was called, the byte strings handed to
  the \<open>send\<close> calls that returned (a call that returns is taken to have written all
  its bytes), and the outcomes of the coming \<open>send\<close> calls as the network decides
  them (\<open>False\<close>: the call raises; an exhausted list: the call succeeds).
\<close>

record sock_state =
  is_closed :: bool
  outbox :: "bytes list"
  send_script :: "bool list"

text \<open>
  The fields of \<open>RosenpassInternalVPN\<close>, then the environment: the sockets, and the
  tape \<open>os.urandom\<close> reads with the position it has reached.
\<close>

record state =
  kem_algorithm :: string
  kem :: "kem_obj option"
  public_key :: "bytes option"
  secret_key :: "bytes option"
  shared_secrets :: "(service_id \<times> bytes) list"
  connected_services :: "(service_id \<times> service_info) list"
  tunnel_counter :: nat
  socks :: "sock \<Rightarrow> sock_state"
  rand :: "nat \<Rightarrow> char"
  rand_pos :: nat

definition os_urandom :: "nat \<Rightarrow> state \<Rightarrow> bytes \<times> state" where
  "os_urandom n s =
     (map (rand s) [rand_pos s ..< rand_pos s + n], s\<lparr>rand_pos := rand_pos s + n\<rparr>)"

text \<open>\<open>sock.send(data)\<close>: \<open>False\<close> when the call raises (a closed socket, or the network).\<close>

definition sock_send :: "sock \<Rightarrow> bytes \<Rightarrow> state \<Rightarrow> bool \<times> state" where
  "sock_send k data s =
     (let ss = socks s k in
      if is_closed ss then (False, s)
      else (case send_script ss of
              [] \<Rightarrow> (True, s\<lparr>socks := (socks s)(k := ss\<lparr>outbox := outbox ss @ [data]\<rparr>)\<rparr>)
            | ok # later \<Rightarrow>
                if ok
                then (True, s\<lparr>socks := (socks s)
                        (k := ss\<lparr>outbox := outbox ss @ [data], send_script := later\<rparr>)\<rparr>)
                else (False, s\<lparr>socks := (socks s)(k := ss\<lparr>send_script := later\<rparr>)\<rparr>)))"

definition sock_close :: "sock \<Rightarrow> state \<Rightarrow> state" where
  "sock_close k s = s\<lparr>socks := (socks s)(k := (socks s k)\<lparr>is_closed := True\<rparr>)\<rparr>"

text \<open>What one \<open>recv(4096)\<close> call gives: bytes (none at end of stream), or an exception.\<close>

datatype recv_event = Recv bytes | RecvRaise

subsection \<open>Initialisation\<close>

text \<open>\<open>_initialize_quantum_kem\<close>: it returns in every case and raises in none.\<close>

definition initialize_quantum_kem :: "lib \<Rightarrow> state \<Rightarrow> state" where
  "initialize_quantum_kem L s =
     (if \<not> quantum_available L then s
      else (case oqs_KeyEncapsulation L (kem_algorithm s) of
              None \<Rightarrow> s
            | Some k \<Rightarrow>
                (case generate_keypair k of
                   None \<Rightarrow> s\<lparr>kem := Some k\<rparr>
                 | Some pk \<Rightarrow> s\<lparr>kem := Some k, public_key := Some pk\<rparr>)))"

text \<open>\<open>RosenpassInternalVPN.__init__\<close>, in an environment with the given sockets and tape.\<close>

definition new_vpn :: "lib \<Rightarrow> (sock \<Rightarrow> sock_state) \<Rightarrow> (nat \<Rightarrow> char) \<Rightarrow> state" where
  "new_vpn L net tape =
     initialize_quantum_kem L
       \<lparr>kem_algorithm = ''Kyber768'', kem = None, public_key = None, secret_key = None,
        shared_secrets = [], connected_services = [], tunnel_counter = 0,
        socks = net, rand = tape, rand_pos = 0\<rparr>"

subsection \<open>The message cipher\<close>

text \<open>
  \<open>_encrypt_tunnel_message\<close>. The key is \<open>shared_secret[:32]\<close>; the IV is drawn before
  the cipher is built, so the tape advances also when the cipher raises.
\<close>

definition encrypt_tunnel_message ::
  "lib \<Rightarrow> string \<Rightarrow> service_id \<Rightarrow> state \<Rightarrow> bytes option \<times> state" where
  "encrypt_tunnel_message L message sid s =
     (case map_of (shared_secrets s) sid of
        None \<Rightarrow> (None, s)
      | Some shared_secret \<Rightarrow>
          if shared_secret = [] then (None, s)
          else (let encryption_key = take 32 shared_secret;
                    (iv, s') = os_urandom 16 s
                in case utf8_encode L message of
                     None \<Rightarrow> (None, s')
                   | Some plaintext \<Rightarrow>
                       (case gcm_encrypt L encryption_key iv plaintext of
                          None \<Rightarrow> (None, s')
                        | Some (ciphertext, tag) \<Rightarrow> (Some (iv @ tag @ ciphertext), s'))))"

text \<open>\<open>_decrypt_tunnel_message\<close>: the same key, \<open>shared_secret[:32]\<close>.\<close>

definition decrypt_tunnel_message ::
  "lib \<Rightarrow> bytes \<Rightarrow> service_id \<Rightarrow> state \<Rightarrow> string option" where
  "decrypt_tunnel_message L encrypted_data sid s =
     (case map_of (shared_secrets s) sid of
        None \<Rightarrow> None
      | Some shared_secret \<Rightarrow>
          if shared_secret = [] then None
          else (let encryption_key = take 32 shared_secret;
                    iv = take 16 encrypted_data;
                    tag = take 16 (drop 16 encrypted_data);
                    ciphertext = drop 32 encrypted_data
                in case gcm_decrypt L encryption_key iv tag ciphertext of
                     None \<Rightarrow> None
                   | Some plaintext \<Rightarrow> utf8_decode L plaintext))"

subsection \<open>The handshake\<close>

abbreviation LF :: char where
  "LF \<equiv> CHR 0x0A"

text \<open>
  The three texts of the handshake, as the f-strings of \<open>_perform_key_exchange\<close> build
  and test them. The two the hub sends are ASCII, on which \<open>.encode()\<close> is the identity.
\<close>

definition pub_key_message :: "bytes \<Rightarrow> bytes" where
  "pub_key_message pk = ''PUB_KEY:'' @ b64encode pk @ [LF]"

definition connected_message :: "service_id \<Rightarrow> bytes" where
  "connected_message sid = ''CONNECTED:'' @ sid @ [LF]"

text \<open>\<open>hashlib.sha256(shared_secret).hexdigest()[:16]\<close>.\<close>

definition derive_service_id :: "lib \<Rightarrow> bytes \<Rightarrow> service_id" where
  "derive_service_id L shared_secret = take 16 (hexdigest (sha256 L shared_secret))"

text \<open>
  \<open>_perform_key_exchange\<close>. \<open>ev\<close> is what the one \<open>recv(4096)\<close> of the handshake
  gives. Every exception is caught by the function's own \<open>except Exception\<close>, after
  which it returns \<open>None\<close>: an absent public key (\<open>b64encode(None)\<close>), a failed
  \<open>send\<close> or \<open>recv\<close>, undecodable bytes, bad base64, an absent KEM object, a failed
  decapsulation. The secret is stored before the confirmation is sent.
\<close>

definition perform_key_exchange ::
  "lib \<Rightarrow> sock \<Rightarrow> recv_event \<Rightarrow> state \<Rightarrow> service_id option \<times> state" where
  "perform_key_exchange L client_socket ev s =
     (case public_key s of
        None \<Rightarrow> (None, s)
      | Some pk \<Rightarrow>
          (let (sent, s1) = sock_send client_socket (pub_key_message pk) s in
           if \<not> sent then (None, s1)
           else (case ev of
                   RecvRaise \<Rightarrow> (None, s1)
                 | Recv data \<Rightarrow>
                     (case utf8_decode L data of
                        None \<Rightarrow> (None, s1)
                      | Some response \<Rightarrow>
                          if startswith response ''ENCAP_SECRET:''
                          then (case after_first_colon response of
                                  None \<Rightarrow> (None, s1)
                                | Some rest \<Rightarrow>
                                    (case b64decode L (strip rest) of
                                       None \<Rightarrow> (None, s1)
                                     | Some encapsulated_secret \<Rightarrow>
                                         (case kem s1 of
                                            None \<Rightarrow> (None, s1)
                                          | Some k \<Rightarrow>
                                              (case decap_secret k encapsulated_secret of
                                                 None \<Rightarrow> (None, s1)
                                               | Some shared_secret \<Rightarrow>
     (let sid = derive_service_id L shared_secret;
          s2 = s1\<lparr>shared_secrets := AList.update sid shared_secret (shared_secrets s1)\<rparr>;
          (confirmed, s3) = sock_send client_socket (connected_message sid) s2
      in if confirmed then (Some sid, s3) else (None, s3))))))
                          else (None, s1)))))"

subsection \<open>Routing and the read loop\<close>

text \<open>\<open>_disconnect_service\<close>.\<close>

definition disconnect_service :: "service_id \<Rightarrow> state \<Rightarrow> state" where
  "disconnect_service sid s =
     s\<lparr>connected_services := AList.delete sid (connected_services s),
       shared_secrets := AList.delete sid (shared_secrets s)\<rparr>"

text \<open>
  \<open>_route_internal_message\<close>. It returns nothing in every case, so the model returns
  the state alone. Its \<open>except Exception\<close> catches a failed \<open>json.loads\<close>, a value
  without \<open>.get\<close>, an unhashable target and a failed \<open>send\<close>; a target that is not a
  string is never a key of the registry.
\<close>

definition route_internal_message :: "lib \<Rightarrow> string \<Rightarrow> service_id \<Rightarrow> state \<Rightarrow> state" where
  "route_internal_message L message sender_service_id s =
     (case json_loads L message of
        Some (JObj msg_data) \<Rightarrow>
          (case map_of msg_data ''target_service'' of
             Some (JStr target_service) \<Rightarrow>
               (case map_of (connected_services s) target_service of
                  None \<Rightarrow> s
                | Some info \<Rightarrow>
                    (let (encrypted_msg, s1) = encrypt_tunnel_message L message target_service s
                     in case encrypted_msg of
                          None \<Rightarrow> s1
                        | Some frame \<Rightarrow>
                            if frame = [] then s1 else snd (sock_send (socket info) frame s1)))
           | _ \<Rightarrow> s)
      | _ \<Rightarrow> s)"

text \<open>The \<open>finally\<close> block of \<open>_handle_tunnel_messages\<close>.\<close>

definition tunnel_teardown :: "sock \<Rightarrow> service_id \<Rightarrow> state \<Rightarrow> state" where
  "tunnel_teardown client_socket sid s = sock_close client_socket (disconnect_service sid s)"

text \<open>One pass of the loop body after a non-empty \<open>recv\<close>: decrypt, and route what decrypted.\<close>

definition handle_frame :: "lib \<Rightarrow> service_id \<Rightarrow> bytes \<Rightarrow> state \<Rightarrow> state" where
  "handle_frame L sid data s =
     (case decrypt_tunnel_message L data sid s of
        None \<Rightarrow> s
      | Some decrypted_msg \<Rightarrow>
          if decrypted_msg = [] then s else route_internal_message L decrypted_msg sid s)"

text \<open>
  \<open>_handle_tunnel_messages\<close>, over what the successive \<open>recv\<close> calls give. The loop
  ends at an empty read or an exception of \<open>recv\<close>; a stream that gives nothing more
  has ended. The loop body has no other exit.
\<close>

fun handle_tunnel_messages ::
  "lib \<Rightarrow> sock \<Rightarrow> service_id \<Rightarrow> recv_event list \<Rightarrow> state \<Rightarrow> state" where
  "handle_tunnel_messages L client_socket sid [] s = tunnel_teardown client_socket sid s"
| "handle_tunnel_messages L client_socket sid (RecvRaise # evs) s =
     tunnel_teardown client_socket sid s"
| "handle_tunnel_messages L client_socket sid (Recv data # evs) s =
     (if data = [] then tunnel_teardown client_socket sid s
      else handle_tunnel_messages L client_socket sid evs (handle_frame L sid data s))"

subsection \<open>The connection handler\<close>

text \<open>
  The first part of \<open>_handle_tunnel_connection\<close>: the key exchange, then either the
  registration of the session under its id (a plain dictionary assignment) or the
  closing of the socket. \<open>now\<close> is \<open>datetime.utcnow().isoformat()\<close>.
\<close>

definition open_tunnel ::
  "lib \<Rightarrow> sock \<Rightarrow> string \<times> nat \<Rightarrow> string \<Rightarrow> recv_event \<Rightarrow> state
     \<Rightarrow> service_id option \<times> state" where
  "open_tunnel L client_socket addr now ev s =
     (case perform_key_exchange L client_socket ev s of
        (Some sid, s1) \<Rightarrow>
          if sid \<noteq> []
          then (Some sid,
                s1\<lparr>connected_services :=
                     AList.update sid
                       \<lparr>socket = client_socket, address = addr, connected_at = now,
                        encryption = ''ML-KEM-768''\<rparr>
                       (connected_services s1)\<rparr>)
          else (None, sock_close client_socket s1)
      | (None, s1) \<Rightarrow> (None, sock_close client_socket s1))"

text \<open>
  \<open>_handle_tunnel_connection\<close>, over what the \<open>recv\<close> calls on the connection give:
  the first is read by the handshake, the others by the read loop.
\<close>

definition handle_tunnel_connection ::
  "lib \<Rightarrow> sock \<Rightarrow> string \<times> nat \<Rightarrow> string \<Rightarrow> recv_event list \<Rightarrow> state \<Rightarrow> state" where
  "handle_tunnel_connection L client_socket addr now evs s =
     (case open_tunnel L client_socket addr now
             (case evs of [] \<Rightarrow> Recv [] | ev # _ \<Rightarrow> ev) s of
        (Some sid, s1) \<Rightarrow> handle_tunnel_messages L client_socket sid (tl evs) s1
      | (None, s1) \<Rightarrow> s1)"

subsection \<open>The HTTP endpoints\<close>

record response =
  status_code :: nat
  body :: jval

text \<open>\<open>len\<close> of a dictionary: the number of its keys.\<close>

definition dict_len :: "('k \<times> 'v) list \<Rightarrow> nat" where
  "dict_len d = length (remdups (map fst d))"

text \<open>\<open>d.get(k)\<close> on the dictionary of a JSON object: \<open>None\<close> for an absent key.\<close>

definition py_get :: "(string \<times> jval) list \<Rightarrow> string \<Rightarrow> jval" where
  "py_get d k = (case map_of d k of None \<Rightarrow> JNull | Some v \<Rightarrow> v)"

text \<open>Python's truth value of a JSON value, as \<open>all([...])\<close> tests it.\<close>

fun truthy :: "jval \<Rightarrow> bool" where
  "truthy JNull = False"
| "truthy (JBool b) = b"
| "truthy (JInt i) = (i \<noteq> 0)"
| "truthy (JFloat m e) = (m \<noteq> 0)"
| "truthy (JStr s) = (s \<noteq> [])"
| "truthy (JArr xs) = (xs \<noteq> [])"
| "truthy (JObj kvs) = (kvs \<noteq> [])"

fun py_type_name :: "jval \<Rightarrow> string" where
  "py_type_name JNull = ''NoneType''"
| "py_type_name (JBool b) = ''bool''"
| "py_type_name (JInt i) = ''int''"
| "py_type_name (JFloat m e) = ''float''"
| "py_type_name (JStr s) = ''str''"
| "py_type_name (JArr xs) = ''list''"
| "py_type_name (JObj kvs) = ''dict''"

fun show_nat :: "nat \<Rightarrow> string" where
  "show_nat n =
     (if n < 10 then [char_of (48 + n)] else show_nat (n div 10) @ [char_of (48 + n mod 10)])"

definition show_int :: "int \<Rightarrow> string" where
  "show_int i = (if i < 0 then CHR ''-'' # show_nat (nat (- i)) else show_nat (nat i))"

text \<open>\<open>int(x)\<close> of the float \<open>m * 2 ^ e\<close>: truncation towards zero.\<close>

definition int_of_float :: "int \<times> int \<Rightarrow> int" where
  "int_of_float t =
     (case t of (m, e) \<Rightarrow>
        if 0 \<le> e then m * 2 ^ nat e else sgn m * (\<bar>m\<bar> div 2 ^ nat (- e)))"

text \<open>\<open>GET /health\<close>. \<open>now\<close> is \<open>datetime.utcnow().isoformat()\<close>.\<close>

definition health_check :: "lib \<Rightarrow> string \<Rightarrow> state \<Rightarrow> response" where
  "health_check L now s =
     \<lparr>status_code = 200,
      body = JObj
        [(''status'', JStr ''healthy''),
         (''service'', JStr ''rosenpass-internal-vpn''),
         (''algorithm'', JStr (kem_algorithm s)),
         (''real_quantum_crypto'', JBool (quantum_available L)),
         (''quantum_library'',
            JStr (if quantum_available L then ''liboqs-python'' else ''fallback'')),
         (''nist_level'', JInt 3),
         (''connected_services'', JInt (int (dict_len (connected_services s)))),
         (''timestamp'', JStr now)]\<rparr>"

text \<open>\<open>GET /stats\<close>. \<open>clock\<close> is the float \<open>time.time()\<close>.\<close>

definition get_stats :: "int \<times> int \<Rightarrow> state \<Rightarrow> response" where
  "get_stats clock s =
     \<lparr>status_code = 200,
      body = JObj
        [(''connected_services'', JInt (int (dict_len (connected_services s)))),
         (''active_tunnels'', JInt (int (dict_len (shared_secrets s)))),
         (''encryption_algorithm'', JStr (kem_algorithm s)),
         (''tunnel_type'', JStr ''internal_service_communication''),
         (''uptime'', JFloat (fst clock) (snd clock)),
         (''status'', JStr ''active'')]\<rparr>"

text \<open>
  \<open>POST /send_message\<close>. \<open>req\<close> is what \<open>request.get_json()\<close> gives: the parsed body,
  or the text of the exception it raises. The handler builds \<open>tunnel_message\<close>, logs,
  and answers; it neither reads nor writes the hub object.
\<close>

definition send_internal_message ::
  "string + jval \<Rightarrow> string \<Rightarrow> int \<times> int \<Rightarrow> state \<Rightarrow> response \<times> state" where
  "send_internal_message req now clock s =
     (case req of
        Inl err \<Rightarrow> (\<lparr>status_code = 500, body = JObj [(''error'', JStr err)]\<rparr>, s)
      | Inr (JObj data) \<Rightarrow>
          (let sender = py_get data ''sender'';
               target = py_get data ''target'';
               message = py_get data ''message''
           in if \<not> (truthy sender \<and> truthy target \<and> truthy message)
              then (\<lparr>status_code = 400,
                     body = JObj [(''error'', JStr ''Missing sender, target, or message'')]\<rparr>, s)
              else (\<lparr>status_code = 200,
                     body = JObj
                       [(''status'', JStr ''message_sent''),
                        (''tunnel_id'', JStr (''tunnel_'' @ show_int (int_of_float clock))),
                        (''encryption'', JStr ''ML-KEM-768'')]\<rparr>, s))
      | Inr other \<Rightarrow>
          (\<lparr>status_code = 500,
            body = JObj [(''error'',
              JStr ([CHR 0x27] @ py_type_name other @ [CHR 0x27]
                    @ '' object has no attribute '' @ [CHR 0x27] @ ''get'' @ [CHR 0x27]))]\<rparr>, s))"

subsection \<open>The listener\<close>






subsection \<open>Library properties the cipher's round trip rests on\<close>

text \<open>
  AES-GCM: a tag is 16 bytes long, and decrypting what was encrypted, under the same
  key, IV and tag, gives the plaintext back.
\<close>

definition aead_correct :: "lib \<Rightarrow> bool" where
  "aead_correct L =
     (\<forall>key iv pt ct tag.
        gcm_encrypt L key iv pt = Some (ct, tag) \<longrightarrow>
        length tag = 16 \<and> gcm_decrypt L key iv tag ct = Some pt)"

text \<open>UTF-8: decoding what was encoded gives the text back.\<close>

definition codec_correct :: "lib \<Rightarrow> bool" where
  "codec_correct L = (\<forall>m b. utf8_encode L m = Some b \<longrightarrow> utf8_decode L b = Some m)"

subsection \<open>A small library instance, for running the model\<close>

text \<open>
  Stand-ins for the libraries, used only where the model is run on a concrete input:
  a strict base64 decoder, a KEM whose secret is the ciphertext padded to 32 bytes,
  the identity as digest, a toy authenticated cipher that keeps the interface of
  AES-GCM (key of 16, 24 or 32 bytes, 16-byte tag, tag checked on decryption), the
  identity on ASCII as codec, and a reader of envelopes of the one form
  \<open>{"target_service": "..."}\<close>.
\<close>

definition b64val :: "char \<Rightarrow> nat option" where
  "b64val c =
     (let n = of_char c :: nat in
      if 65 \<le> n \<and> n \<le> 90 then Some (n - 65)
      else if 97 \<le> n \<and> n \<le> 122 then Some (n - 71)
      else if 48 \<le> n \<and> n \<le> 57 then Some (n + 4)
      else if n = 43 then Some 62
      else if n = 47 then Some 63
      else None)"

fun demo_b64decode :: "string \<Rightarrow> bytes option" where
  "demo_b64decode [] = Some []"
| "demo_b64decode (a # b # c # d # rest) =
     (case (b64val a, b64val b) of
        (Some x, Some y) \<Rightarrow>
          if rest = [] \<and> c = CHR ''='' \<and> d = CHR ''=''
          then Some [char_of ((x * 64 + y) div 16)]
          else (case b64val c of
                  None \<Rightarrow> None
                | Some z \<Rightarrow>
                    if rest = [] \<and> d = CHR ''=''
                    then Some [char_of ((x * 4096 + y * 64 + z) div 1024),
                               char_of ((x * 4096 + y * 64 + z) div 4)]
                    else (case (b64val d, demo_b64decode rest) of
                            (Some w, Some decoded) \<Rightarrow>
                              Some ([char_of ((x * 262144 + y * 4096 + z * 64 + w) div 65536),
                                     char_of ((x * 262144 + y * 4096 + z * 64 + w) div 256),
                                     char_of (x * 262144 + y * 4096 + z * 64 + w)] @ decoded)
                          | _ \<Rightarrow> None))
      | _ \<Rightarrow> None)"
| "demo_b64decode _ = None"

definition demo_kem :: kem_obj where
  "demo_kem =
     \<lparr>generate_keypair = Some ''pk'',
      decap_secret = (\<lambda>ct. if ct = [] then None
                            else Some (take 32 (ct @ ''................................'')))\<rparr>"

definition demo_key_ok :: "bytes \<Rightarrow> bool" where
  "demo_key_ok key = (length key = 16 \<or> length key = 24 \<or> length key = 32)"

definition demo_tag :: "bytes \<Rightarrow> bytes \<Rightarrow> bytes \<Rightarrow> bytes" where
  "demo_tag key iv pt = take 16 (pt @ key)"

definition demo_gcm_encrypt :: "bytes \<Rightarrow> bytes \<Rightarrow> bytes \<Rightarrow> (bytes \<times> bytes) option" where
  "demo_gcm_encrypt key iv pt =
     (if demo_key_ok key then Some (rev pt, demo_tag key iv pt) else None)"

definition demo_gcm_decrypt :: "bytes \<Rightarrow> bytes \<Rightarrow> bytes \<Rightarrow> bytes \<Rightarrow> bytes option" where
  "demo_gcm_decrypt key iv tag ct =
     (if demo_key_ok key \<and> tag = demo_tag key iv (rev ct) then Some (rev ct) else None)"

definition demo_utf8 :: "string \<Rightarrow> string option" where
  "demo_utf8 s = (if list_all (\<lambda>c. (of_char c :: nat) < 128) s then Some s else None)"

text \<open>The text \<open>{"target_service": "t"}\<close>.\<close>

definition envelope :: "string \<Rightarrow> string" where
  "envelope t =
     ''{'' @ [CHR 0x22] @ ''target_service'' @ [CHR 0x22] @ '': '' @ [CHR 0x22] @ t
       @ [CHR 0x22] @ ''}''"

definition demo_json_loads :: "string \<Rightarrow> jval option" where
  "demo_json_loads s =
     (let t = takeWhile (\<lambda>c. c \<noteq> CHR 0x22) (drop 20 s)
      in if s = envelope t then Some (JObj [(''target_service'', JStr t)]) else None)"

definition demo_lib :: lib where
  "demo_lib =
     \<lparr>quantum_available = True,
      oqs_KeyEncapsulation = (\<lambda>alg. if alg = ''Kyber768'' then Some demo_kem else None),
      sha256 = (\<lambda>d. d),
      b64decode = demo_b64decode,
      gcm_encrypt = demo_gcm_encrypt,
      gcm_decrypt = demo_gcm_decrypt,
      utf8_encode = demo_utf8,
      utf8_decode = demo_utf8,
      json_loads = demo_json_loads\<rparr>"

definition fresh_net :: "sock \<Rightarrow> sock_state" where
  "fresh_net = (\<lambda>k. \<lparr>is_closed = False, outbox = [], send_script = []\<rparr>)"

definition demo_tape :: "nat \<Rightarrow> char" where
  "demo_tape = (\<lambda>i. CHR ''r'')"

text \<open>The hub as \<open>__init__\<close> leaves it, with the library present.\<close>

definition demo_hub :: state where
  "demo_hub = new_vpn demo_lib fresh_net demo_tape"

text \<open>A hub holding one session, under the id the handshake derives from its secret.\<close>

definition demo_session :: state where
  "demo_session =
     demo_hub\<lparr>shared_secrets := [(''6b312e2e2e2e2e2e'', ''k1..............................'')]\<rparr>"

text \<open>
  What a client sends to complete the handshake: the encapsulation \<open>k1\<close>, in base64.
\<close>

definition hello :: bytes where
  "hello = ''ENCAP_SECRET:azE='' @ [LF]"


text \<open>
  A network where the peer of socket 1 goes away after the hub's first write: the
  second \<open>send\<close> on that socket raises.
\<close>

definition flaky_net :: "sock \<Rightarrow> sock_state" where
  "flaky_net = fresh_net(1 := \<lparr>is_closed = False, outbox = [], send_script = [True, False]\<rparr>)"

text \<open>The hub after one client has completed the handshake on socket 1.\<close>

definition first_session :: state where
  "first_session =
     snd (open_tunnel demo_lib 1 (''10.0.0.7'', 40001) ''2024-05-01T10:00:00'' (Recv hello)
            demo_hub)"

subsection \<open>Length-prefixed framing, in the words of the design\<close>



text \<open>
  A cipher that hands back the key it is given, as ciphertext when encrypting and as
  plaintext when decrypting, so that a run of the model shows the key the hub uses.
\<close>

definition probe_lib :: lib where
  "probe_lib =
     demo_lib\<lparr>gcm_encrypt := (\<lambda>key iv pt. Some (key, ''TTTTTTTTTTTTTTTT'')),
              gcm_decrypt := (\<lambda>key iv tag ct. Some key)\<rparr>"

text \<open>A hub holding a session whose secret is longer than 32 bytes.\<close>

definition long_secret_session :: state where
  "long_secret_session =
     demo_hub\<lparr>shared_secrets := [(''svc-a'', ''0123456789abcdefghijklmnopqrstuv-and-more'')]\<rparr>"

text \<open>A reading of \<open>time.time()\<close>.\<close>

definition stats_clock :: "int \<times> int" where
  "stats_clock = (1714557600, 0)"

text \<open>Two deployments: \<open>import oqs\<close> fails; it works, but the algorithm cannot be made.\<close>

definition no_oqs_lib :: lib where
  "no_oqs_lib = demo_lib\<lparr>quantum_available := False\<rparr>"

definition no_algorithm_lib :: lib where
  "no_algorithm_lib = demo_lib\<lparr>oqs_KeyEncapsulation := (\<lambda>alg. None)\<rparr>"

text \<open>The value of a key in the JSON object a handler answers with.\<close>

definition response_field :: "response \<Rightarrow> string \<Rightarrow> jval option" where
  "response_field r k = (case body r of JObj kvs \<Rightarrow> map_of kvs k | _ \<Rightarrow> None)"


text \<open>The body of a \<open>POST /send_message\<close> for a target that is not connected.\<close>

definition send_request :: "(string \<times> jval) list" where
  "send_request =
     [(''sender'', JStr ''billing''), (''target'', JStr ''not-connected''),
      (''message'', JStr ''hi'')]"

section \<open>Properties\<close>

subsection \<open>Facts about the environment and the library instance\<close>

lemma os_urandom_fields:
  "shared_secrets (snd (os_urandom n s)) = shared_secrets s"
  "connected_services (snd (os_urandom n s)) = connected_services s"
  "socks (snd (os_urandom n s)) = socks s"
  "length (fst (os_urandom n s)) = n"
  by (simp_all add: os_urandom_def)

lemma demo_aead_correct: "aead_correct demo_lib"
  by (auto simp: aead_correct_def demo_lib_def demo_gcm_encrypt_def demo_gcm_decrypt_def
      demo_tag_def demo_key_ok_def split: if_splits)

lemma demo_codec_correct: "codec_correct demo_lib"
  by (auto simp: codec_correct_def demo_lib_def demo_utf8_def split: if_splits)

lemma demo_hub_eval:
  "kem demo_hub = Some demo_kem" "public_key demo_hub = Some ''pk''"
  "shared_secrets demo_hub = []" "connected_services demo_hub = []"
  "socks demo_hub = fresh_net" "rand demo_hub = demo_tape" "rand_pos demo_hub = 0"
  "kem_algorithm demo_hub = ''Kyber768''"
  by (simp_all add: demo_hub_def new_vpn_def initialize_quantum_kem_def demo_lib_def demo_kem_def)

subsection \<open>The cipher's round trip\<close>

text \<open>
  C5. For an established session (a non-empty secret stored under the service id) and
  a payload the codec and the cipher accept, \<open>_encrypt_tunnel_message\<close> returns a
  frame, and \<open>_decrypt_tunnel_message\<close> of that frame under the same session returns
  the payload. The libraries enter through what they guarantee: AES-GCM decrypts what
  it encrypted and its tag is 16 bytes, UTF-8 decodes what it encoded.
\<close>

theorem encrypt_decrypt_round_trip:
  assumes "aead_correct L" and "codec_correct L"
    and "map_of (shared_secrets s) sid = Some secret" and "secret \<noteq> []"
    and "utf8_encode L payload = Some pt"
    and "gcm_encrypt L (take 32 secret) (fst (os_urandom 16 s)) pt = Some (ct, tag)"
  shows "\<exists>frame s'. encrypt_tunnel_message L payload sid s = (Some frame, s')
           \<and> decrypt_tunnel_message L frame sid s' = Some payload"
proof -
  obtain iv s1 where u: "os_urandom 16 s = (iv, s1)"
    by (cases "os_urandom 16 s")
  have iv16: "length iv = 16"
    using os_urandom_fields(4) [of 16 s] u by simp
  have keep: "shared_secrets s1 = shared_secrets s"
    using os_urandom_fields(1) [of 16 s] u by simp
  have enc: "gcm_encrypt L (take 32 secret) iv pt = Some (ct, tag)"
    using assms(6) u by simp
  have tag16: "length tag = 16" and dec: "gcm_decrypt L (take 32 secret) iv tag ct = Some pt"
    using assms(1) enc unfolding aead_correct_def by blast+
  have decoded: "utf8_decode L pt = Some payload"
    using assms(2,5) unfolding codec_correct_def by blast
  have e: "encrypt_tunnel_message L payload sid s = (Some (iv @ tag @ ct), s1)"
    using assms(3,4,5) enc u by (simp add: encrypt_tunnel_message_def)
  have d: "decrypt_tunnel_message L (iv @ tag @ ct) sid s1 = Some payload"
    using assms(3,4) keep iv16 tag16 dec decoded by (simp add: decrypt_tunnel_message_def)
  from e d show ?thesis by blast
qed

theorem encrypt_decrypt_round_trip_witness:
  "\<exists>frame s'.
     encrypt_tunnel_message demo_lib ''ping'' ''6b312e2e2e2e2e2e'' demo_session = (Some frame, s')
     \<and> decrypt_tunnel_message demo_lib frame ''6b312e2e2e2e2e2e'' s' = Some ''ping''"
proof -
  have a: "map_of (shared_secrets demo_session) ''6b312e2e2e2e2e2e''
             = Some ''k1..............................''"
    by (simp add: demo_session_def)
  have b: "utf8_encode demo_lib ''ping'' = Some ''ping''"
    by (simp add: demo_lib_def demo_utf8_def)
  have c: "gcm_encrypt demo_lib (take 32 ''k1..............................'')
             (fst (os_urandom 16 demo_session)) ''ping''
           = Some (''gnip'', ''pingk1..........'')"
    by (simp add: demo_lib_def demo_gcm_encrypt_def demo_key_ok_def demo_tag_def)
  show ?thesis
    using encrypt_decrypt_round_trip [OF demo_aead_correct demo_codec_correct a _ b c] by simp
qed

subsection \<open>What a send and the key exchange can change\<close>

lemma sock_send_frame:
  assumes "sock_send c data s = (ok, s')"
  shows "shared_secrets s' = shared_secrets s" "connected_services s' = connected_services s"
    "kem s' = kem s" "public_key s' = public_key s" "k \<noteq> c \<Longrightarrow> socks s' k = socks s k"
    "is_closed (socks s' c) = is_closed (socks s c)"
    "rand s' = rand s" "rand_pos s' = rand_pos s" "kem_algorithm s' = kem_algorithm s"
  using assms by (auto simp: sock_send_def Let_def split: list.splits if_splits)


lemma kx_cases:
  assumes "perform_key_exchange L c ev s = (r, s')"
  obtains
    (no_key) "public_key s = None" "r = None" "s' = s"
  | (unsent) pk where "public_key s = Some pk"
      "sock_send c (pub_key_message pk) s = (False, s')" "r = None"
  | (refused) pk where "public_key s = Some pk"
      "sock_send c (pub_key_message pk) s = (True, s')" "r = None"
  | (stored) pk s1 data response rest encapsulated k secret confirmed where
      "public_key s = Some pk"
      "sock_send c (pub_key_message pk) s = (True, s1)"
      "ev = Recv data" "utf8_decode L data = Some response"
      "startswith response ''ENCAP_SECRET:''" "after_first_colon response = Some rest"
      "b64decode L (strip rest) = Some encapsulated" "kem s1 = Some k"
      "decap_secret k encapsulated = Some secret"
      "sock_send c (connected_message (derive_service_id L secret))
         (s1\<lparr>shared_secrets :=
               AList.update (derive_service_id L secret) secret (shared_secrets s1)\<rparr>)
       = (confirmed, s')"
      "r = (if confirmed then Some (derive_service_id L secret) else None)"
proof (cases "public_key s")
  case None
  with assms have "r = None" "s' = s" by (simp_all add: perform_key_exchange_def)
  with None show ?thesis by (rule no_key)
next
  case (Some pk)
  obtain sent s1 where snd1: "sock_send c (pub_key_message pk) s = (sent, s1)"
    by (cases "sock_send c (pub_key_message pk) s")
  show ?thesis
  proof (cases sent)
    case False
    with assms Some snd1 have "r = None" "s' = s1" by (simp_all add: perform_key_exchange_def)
    with Some snd1 False show ?thesis by (auto intro: unsent)
  next
    case True
    note ok = True
    show ?thesis
    proof (cases "\<exists>data response rest encapsulated k secret.
        ev = Recv data \<and> utf8_decode L data = Some response \<and>
        startswith response ''ENCAP_SECRET:'' \<and> after_first_colon response = Some rest \<and>
        b64decode L (strip rest) = Some encapsulated \<and> kem s1 = Some k \<and>
        decap_secret k encapsulated = Some secret")
      case True
      then obtain data response rest encapsulated k secret where h:
        "ev = Recv data" "utf8_decode L data = Some response"
        "startswith response ''ENCAP_SECRET:''" "after_first_colon response = Some rest"
        "b64decode L (strip rest) = Some encapsulated" "kem s1 = Some k"
        "decap_secret k encapsulated = Some secret" by blast
      obtain confirmed s3 where snd2:
        "sock_send c (connected_message (derive_service_id L secret))
           (s1\<lparr>shared_secrets :=
               AList.update (derive_service_id L secret) secret (shared_secrets s1)\<rparr>)
         = (confirmed, s3)"
        by (cases "sock_send c (connected_message (derive_service_id L secret))
           (s1\<lparr>shared_secrets :=
               AList.update (derive_service_id L secret) secret (shared_secrets s1)\<rparr>)")
      from assms Some snd1 ok h snd2
      have "r = (if confirmed then Some (derive_service_id L secret) else None)" "s' = s3"
        by (simp_all add: perform_key_exchange_def Let_def split: if_splits)
      with Some snd1 ok h snd2 show ?thesis by (auto intro: stored)
    next
      case False
      with assms Some snd1 ok have "r = None \<and> s' = s1"
        by (auto simp add: perform_key_exchange_def Let_def
            split: recv_event.splits option.splits if_splits)
      with Some snd1 ok show ?thesis by (auto intro: refused)
    qed
  qed
qed

lemma sock_send_others:
  assumes "sock_send c data s = (ok, s')"
  shows "\<forall>k. k \<noteq> c \<longrightarrow> socks s' k = socks s k"
  using assms by (auto simp: sock_send_def Let_def split: list.splits if_splits)

lemma kx_frame:
  assumes "perform_key_exchange L c ev s = (r, s')"
  shows "connected_services s' = connected_services s
    \<and> (\<forall>k. k \<noteq> c \<longrightarrow> socks s' k = socks s k)
    \<and> is_closed (socks s' c) = is_closed (socks s c)
    \<and> kem s' = kem s \<and> public_key s' = public_key s \<and> kem_algorithm s' = kem_algorithm s"
  using assms
proof (cases rule: kx_cases)
  case no_key
  then show ?thesis by simp
next
  case (unsent pk)
  show ?thesis
    using sock_send_frame [OF unsent(2)] sock_send_others [OF unsent(2)] by simp
next
  case (refused pk)
  show ?thesis
    using sock_send_frame [OF refused(2)] sock_send_others [OF refused(2)] by simp
next
  case (stored pk s1 data response rest encapsulated k secret confirmed)
  show ?thesis
    using sock_send_frame [OF stored(2)] sock_send_others [OF stored(2)]
      sock_send_frame [OF stored(10)] sock_send_others [OF stored(10)] by simp
qed

subsection \<open>Running the model on the library instance\<close>

lemma demo_lib_eval:
  "utf8_decode demo_lib = demo_utf8" "utf8_encode demo_lib = demo_utf8"
  "b64decode demo_lib = demo_b64decode" "sha256 demo_lib = (\<lambda>d. d)"
  "gcm_encrypt demo_lib = demo_gcm_encrypt" "gcm_decrypt demo_lib = demo_gcm_decrypt"
  "json_loads demo_lib = demo_json_loads" "quantum_available demo_lib = True"
  by (simp_all add: demo_lib_def)

lemmas run_defs =
  demo_hub_eval demo_lib_eval demo_utf8_def startswith_def after_first_colon_def strip_def
  is_space_def b64val_def char_of_def bit_Suc_0_iff demo_kem_def hexdigest_def hexchar_def
  b64char_def sock_send_def sock_close_def fresh_net_def pub_key_message_def
  connected_message_def derive_service_id_def Let_def hello_def

lemmas handshake_defs = perform_key_exchange_def open_tunnel_def

lemma first_session_eval:
  "shared_secrets first_session = [(''6b312e2e2e2e2e2e'', ''k1..............................'')]"
  "connected_services first_session =
     [(''6b312e2e2e2e2e2e'', \<lparr>socket = 1, address = (''10.0.0.7'', 40001),
        connected_at = ''2024-05-01T10:00:00'', encryption = ''ML-KEM-768''\<rparr>)]"
  "socks first_session = fresh_net(1 := \<lparr>is_closed = False,
       outbox = [''PUB_KEY:cGs='' @ [LF], ''CONNECTED:6b312e2e2e2e2e2e'' @ [LF]],
       send_script = []\<rparr>)"
  "kem first_session = Some demo_kem" "public_key first_session = Some ''pk''"
  "rand first_session = demo_tape" "rand_pos first_session = 0"
  "kem_algorithm first_session = ''Kyber768''"
  by (simp_all add: first_session_def handshake_defs run_defs)

lemma open_tunnel_Some:
  assumes "open_tunnel L c addr now ev s = (Some sid, s')"
  obtains s1 where "perform_key_exchange L c ev s = (Some sid, s1)"
    "s' = s1\<lparr>connected_services :=
            AList.update sid
              \<lparr>socket = c, address = addr, connected_at = now, encryption = ''ML-KEM-768''\<rparr>
              (connected_services s1)\<rparr>"
  using assms
  by (auto simp: open_tunnel_def split: prod.splits option.splits if_splits)

subsection \<open>A failed handshake\<close>

text \<open>
  What a failed key exchange leaves behind: the registry is as before, and the stored
  secrets are as before unless the failure is that of the confirmation's \<open>send\<close>,
  after the secret was stored. A failed handshake always closes the socket.
\<close>

lemma failed_key_exchange_effects:
  assumes "perform_key_exchange L c ev s = (None, s')"
  shows "connected_services s' = connected_services s
       \<and> (shared_secrets s' = shared_secrets s
          \<or> (\<exists>pk s1 secret.
                sock_send c (pub_key_message pk) s = (True, s1)
                \<and> sock_send c (connected_message (derive_service_id L secret))
                     (s1\<lparr>shared_secrets :=
                           AList.update (derive_service_id L secret) secret (shared_secrets s1)\<rparr>)
                   = (False, s')
                \<and> shared_secrets s'
                   = AList.update (derive_service_id L secret) secret (shared_secrets s)))"
  using assms
proof (cases rule: kx_cases)
  case no_key
  then show ?thesis by simp
next
  case (unsent pk)
  show ?thesis using sock_send_frame [OF unsent(2)] by simp
next
  case (refused pk)
  show ?thesis using sock_send_frame [OF refused(2)] by simp
next
  case (stored pk s1 data response rest encapsulated k secret confirmed)
  from stored(11) have no: "\<not> confirmed" by (simp split: if_splits)
  have "shared_secrets s' = AList.update (derive_service_id L secret) secret (shared_secrets s)"
    using sock_send_frame(1) [OF stored(2)] sock_send_frame(1) [OF stored(10)] by simp
  moreover have "connected_services s' = connected_services s"
    using sock_send_frame(2) [OF stored(2)] sock_send_frame(2) [OF stored(10)] by simp
  ultimately show ?thesis using stored(2,10) no by auto
qed

lemma failed_open_tunnel_closes:
  assumes "open_tunnel L c addr now ev s = (None, s')"
  shows "is_closed (socks s' c) \<and> connected_services s' = connected_services s"
proof -
  obtain r s1 where kx: "perform_key_exchange L c ev s = (r, s1)"
    by (cases "perform_key_exchange L c ev s")
  with assms have "s' = sock_close c s1"
    by (auto simp: open_tunnel_def split: option.splits if_splits)
  with kx_frame [OF kx] show ?thesis by (simp add: sock_close_def)
qed

text \<open>
  C2. A handshake that fails is to close the transport and leave the registry and
  the stored secrets as they were. The hub does so on every failure but one: the
  secret is stored before the confirmation is sent, so when that last \<open>send\<close> raises
  the handshake fails, the socket is closed, no session is registered, and the secret
  stays in \<open>shared_secrets\<close>. Here the peer of socket 1 sends a valid encapsulation and
  is gone before the confirmation: \<open>shared_secrets\<close> was empty and holds the secret of
  the failed connection afterwards.
\<close>

theorem failed_confirmation_keeps_secret:
  "shared_secrets (demo_hub\<lparr>socks := flaky_net\<rparr>) = []
   \<and> fst (open_tunnel demo_lib 1 (''10.0.0.7'', 40001) ''2024-05-01T10:00:00'' (Recv hello)
            (demo_hub\<lparr>socks := flaky_net\<rparr>)) = None
   \<and> is_closed (socks (handle_tunnel_connection demo_lib 1 (''10.0.0.7'', 40001)
         ''2024-05-01T10:00:00'' [Recv hello] (demo_hub\<lparr>socks := flaky_net\<rparr>)) 1)
   \<and> connected_services (handle_tunnel_connection demo_lib 1 (''10.0.0.7'', 40001)
         ''2024-05-01T10:00:00'' [Recv hello] (demo_hub\<lparr>socks := flaky_net\<rparr>)) = []
   \<and> shared_secrets (handle_tunnel_connection demo_lib 1 (''10.0.0.7'', 40001)
         ''2024-05-01T10:00:00'' [Recv hello] (demo_hub\<lparr>socks := flaky_net\<rparr>))
       = [(''6b312e2e2e2e2e2e'', ''k1..............................'')]"
  by (simp add: handle_tunnel_connection_def handshake_defs flaky_net_def run_defs)

subsection \<open>Registering a session under an id that is present\<close>

text \<open>
  C3, as stated, fails. Two clients that send the same encapsulation derive the same
  service id. After the second handshake the registry maps the id to the second
  socket, and the first session's socket has not been closed.
\<close>

theorem colliding_session_not_closed:
  "map_of (connected_services first_session) ''6b312e2e2e2e2e2e''
     = Some \<lparr>socket = 1, address = (''10.0.0.7'', 40001),
        connected_at = ''2024-05-01T10:00:00'', encryption = ''ML-KEM-768''\<rparr>
   \<and> fst (open_tunnel demo_lib 2 (''10.0.0.8'', 40002) ''2024-05-01T10:05:00'' (Recv hello)
          first_session) = Some ''6b312e2e2e2e2e2e''
   \<and> map_of (connected_services (snd (open_tunnel demo_lib 2 (''10.0.0.8'', 40002)
          ''2024-05-01T10:05:00'' (Recv hello) first_session))) ''6b312e2e2e2e2e2e''
     = Some \<lparr>socket = 2, address = (''10.0.0.8'', 40002),
        connected_at = ''2024-05-01T10:05:00'', encryption = ''ML-KEM-768''\<rparr>
   \<and> \<not> is_closed (socks (snd (open_tunnel demo_lib 2 (''10.0.0.8'', 40002)
          ''2024-05-01T10:05:00'' (Recv hello) first_session)) 1)"
  by (simp add: handshake_defs first_session_eval run_defs)

text \<open>
  C3, amended. Registering a session under an id that is present replaces the entry
  of that id in place: the id maps to the new session, the ids of the registry and
  every other entry are as before (each id keeps one entry), and the socket of the
  prior session is left as it was, neither closed nor written to. The handler gets
  back the service id alone.
\<close>

theorem registration_replaces_in_place:
  assumes "open_tunnel L c addr now ev s = (Some sid, s')"
    and "map_of (connected_services s) sid = Some prior"
    and "socket prior \<noteq> c"
  shows "map_of (connected_services s') sid
           = Some \<lparr>socket = c, address = addr, connected_at = now, encryption = ''ML-KEM-768''\<rparr>
       \<and> map fst (connected_services s') = map fst (connected_services s)
       \<and> (\<forall>other. other \<noteq> sid \<longrightarrow>
             map_of (connected_services s') other = map_of (connected_services s) other)
       \<and> socks s' (socket prior) = socks s (socket prior)"
proof -
  from assms(1) obtain s1 where kx: "perform_key_exchange L c ev s = (Some sid, s1)"
    and s': "s' = s1\<lparr>connected_services :=
            AList.update sid
              \<lparr>socket = c, address = addr, connected_at = now, encryption = ''ML-KEM-768''\<rparr>
              (connected_services s1)\<rparr>"
    by (rule open_tunnel_Some)
  have same: "connected_services s1 = connected_services s"
    and net: "socks s1 (socket prior) = socks s (socket prior)"
    using kx_frame [OF kx] assms(3) by simp_all
  have present: "sid \<in> fst ` set (connected_services s)"
    using assms(2) by (force dest: map_of_SomeD)
  show ?thesis
    using s' same net present by (simp add: update_conv' update_keys)
qed

theorem registration_replaces_in_place_witness:
  "map_of (connected_services (snd (open_tunnel demo_lib 2 (''10.0.0.8'', 40002)
          ''2024-05-01T10:05:00'' (Recv hello) first_session))) ''6b312e2e2e2e2e2e''
     = Some \<lparr>socket = 2, address = (''10.0.0.8'', 40002),
        connected_at = ''2024-05-01T10:05:00'', encryption = ''ML-KEM-768''\<rparr>
   \<and> map fst (connected_services (snd (open_tunnel demo_lib 2 (''10.0.0.8'', 40002)
          ''2024-05-01T10:05:00'' (Recv hello) first_session)))
     = map fst (connected_services first_session)
   \<and> socks (snd (open_tunnel demo_lib 2 (''10.0.0.8'', 40002)
          ''2024-05-01T10:05:00'' (Recv hello) first_session)) 1 = socks first_session 1"
proof -
  have a: "open_tunnel demo_lib 2 (''10.0.0.8'', 40002) ''2024-05-01T10:05:00'' (Recv hello)
             first_session
           = (Some ''6b312e2e2e2e2e2e'', snd (open_tunnel demo_lib 2 (''10.0.0.8'', 40002)
               ''2024-05-01T10:05:00'' (Recv hello) first_session))"
    by (simp add: handshake_defs first_session_eval run_defs)
  have b: "map_of (connected_services first_session) ''6b312e2e2e2e2e2e''
     = Some \<lparr>socket = 1, address = (''10.0.0.7'', 40001),
        connected_at = ''2024-05-01T10:00:00'', encryption = ''ML-KEM-768''\<rparr>"
    by (simp add: first_session_eval)
  show ?thesis
    using registration_replaces_in_place [OF a b] by simp
qed

subsection \<open>The handshake on the wire\<close>








subsection \<open>The key of the cipher\<close>

text \<open>
  C1, as stated, fails. With the cipher replaced by a probe that hands back its key,
  a session whose secret is \<open>0123456789abcdefghijklmnopqrstuv-and-more\<close> encrypts and
  decrypts under the key \<open>0123456789abcdefghijklmnopqrstuv\<close>: the first 32 bytes of
  the raw secret, and the same key in both directions.
\<close>

theorem session_key_is_raw_prefix:
  "map_of (shared_secrets long_secret_session) ''svc-a''
     = Some ''0123456789abcdefghijklmnopqrstuv-and-more''
   \<and> fst (encrypt_tunnel_message probe_lib ''ping'' ''svc-a'' long_secret_session)
     = Some (''rrrrrrrrrrrrrrrr'' @ ''TTTTTTTTTTTTTTTT'' @ ''0123456789abcdefghijklmnopqrstuv'')
   \<and> decrypt_tunnel_message probe_lib ''any frame that arrives'' ''svc-a'' long_secret_session
     = Some ''0123456789abcdefghijklmnopqrstuv''"
  by (simp add: encrypt_tunnel_message_def decrypt_tunnel_message_def probe_lib_def
      long_secret_session_def os_urandom_def demo_tape_def demo_hub_eval demo_lib_def
      demo_utf8_def upt_rec)

text \<open>
  C1, amended. For every session, encryption and decryption give AES-GCM one and the
  same key, the first 32 bytes of the raw shared secret (the whole secret when it is
  no longer than 32 bytes): no key-derivation function, no context string and no
  directional subkeys stand between the secret and the cipher.
\<close>

theorem cipher_key_is_truncated_secret:
  assumes "map_of (shared_secrets s) sid = Some secret" and "secret \<noteq> []"
  shows "fst (encrypt_tunnel_message L message sid s)
           = (case utf8_encode L message of
                None \<Rightarrow> None
              | Some pt \<Rightarrow>
                  (case gcm_encrypt L (take 32 secret) (fst (os_urandom 16 s)) pt of
                     None \<Rightarrow> None
                   | Some (ct, tag) \<Rightarrow> Some (fst (os_urandom 16 s) @ tag @ ct)))
       \<and> decrypt_tunnel_message L frame sid s
           = (case gcm_decrypt L (take 32 secret) (take 16 frame) (take 16 (drop 16 frame))
                     (drop 32 frame) of
                None \<Rightarrow> None
              | Some pt \<Rightarrow> utf8_decode L pt)
       \<and> (length secret \<le> 32 \<longrightarrow> take 32 secret = secret)"
  using assms
  by (auto simp: encrypt_tunnel_message_def decrypt_tunnel_message_def Let_def
      split: option.splits prod.splits)

theorem cipher_key_is_truncated_secret_witness:
  "fst (encrypt_tunnel_message demo_lib ''ping'' ''6b312e2e2e2e2e2e'' demo_session)
     = Some (''rrrrrrrrrrrrrrrr'' @ ''pingk1..........'' @ ''gnip'')
   \<and> decrypt_tunnel_message demo_lib (''rrrrrrrrrrrrrrrr'' @ ''pingk1..........'' @ ''gnip'')
        ''6b312e2e2e2e2e2e'' demo_session
     = Some ''ping''"
proof -
  have a: "map_of (shared_secrets demo_session) ''6b312e2e2e2e2e2e''
             = Some ''k1..............................''"
    by (simp add: demo_session_def)
  have iv: "fst (os_urandom 16 demo_session) = ''rrrrrrrrrrrrrrrr''"
    by (simp add: os_urandom_def demo_session_def demo_hub_eval demo_tape_def upt_rec)
  show ?thesis
    using cipher_key_is_truncated_secret [OF a, of demo_lib "''ping''"
        "''rrrrrrrrrrrrrrrr'' @ ''pingk1..........'' @ ''gnip''"]
    by (simp add: iv demo_lib_eval demo_utf8_def demo_gcm_encrypt_def demo_gcm_decrypt_def
        demo_key_ok_def demo_tag_def)
qed

subsection \<open>Routing to a service that is not connected\<close>

lemma envelope_eval:
  "demo_json_loads (envelope ''deadbeefdeadbeef'')
     = Some (JObj [(''target_service'', JStr ''deadbeefdeadbeef'')])"
  "demo_json_loads (envelope ''6b312e2e2e2e2e2e'')
     = Some (JObj [(''target_service'', JStr ''6b312e2e2e2e2e2e'')])"
  by (simp_all add: demo_json_loads_def envelope_def)

text \<open>
  C4, as stated, fails. An envelope for an id that is not in the registry leaves the
  whole state of the hub as it was, every field and so every counter, and the
  answer of \<open>GET /stats\<close>, which has no count of dropped or delivered messages, is the
  same after as before; the same holds for an envelope routed to a session that was
  just removed. \<open>_route_internal_message\<close> returns nothing in any case.
\<close>

theorem unknown_target_changes_nothing:
  "route_internal_message demo_lib (envelope ''deadbeefdeadbeef'') ''6b312e2e2e2e2e2e''
     first_session = first_session
   \<and> get_stats stats_clock (route_internal_message demo_lib (envelope ''deadbeefdeadbeef'')
        ''6b312e2e2e2e2e2e'' first_session)
     = get_stats stats_clock first_session
   \<and> body (get_stats stats_clock first_session)
     = JObj [(''connected_services'', JInt 1), (''active_tunnels'', JInt 1),
             (''encryption_algorithm'', JStr ''Kyber768''),
             (''tunnel_type'', JStr ''internal_service_communication''),
             (''uptime'', JFloat 1714557600 0), (''status'', JStr ''active'')]
   \<and> route_internal_message demo_lib (envelope ''6b312e2e2e2e2e2e'') ''6b312e2e2e2e2e2e''
        (disconnect_service ''6b312e2e2e2e2e2e'' first_session)
     = disconnect_service ''6b312e2e2e2e2e2e'' first_session"
  by (simp add: route_internal_message_def demo_lib_eval envelope_eval first_session_eval
      get_stats_def dict_len_def stats_clock_def disconnect_service_def)

text \<open>
  C4, amended. An envelope whose target is a string that is not an id of the
  registry is dropped in silence: the state of the hub is unchanged, nothing is
  written to any socket, nothing is counted and nothing is returned. In particular,
  after a session is removed, an envelope routed to its id changes neither the state
  nor the answer of \<open>GET /stats\<close>.
\<close>

theorem route_to_absent_target:
  assumes "json_loads L message = Some (JObj msg_data)"
    and "map_of msg_data ''target_service'' = Some (JStr target)"
  shows "(map_of (connected_services s) target = None \<longrightarrow>
            route_internal_message L message sender s = s)
       \<and> route_internal_message L message sender (disconnect_service target s)
            = disconnect_service target s
       \<and> get_stats clock (route_internal_message L message sender (disconnect_service target s))
            = get_stats clock (disconnect_service target s)"
  using assms
  by (simp add: route_internal_message_def disconnect_service_def delete_conv')

theorem route_to_absent_target_witness:
  "route_internal_message demo_lib (envelope ''deadbeefdeadbeef'') ''6b312e2e2e2e2e2e''
     first_session = first_session
   \<and> route_internal_message demo_lib (envelope ''deadbeefdeadbeef'') ''6b312e2e2e2e2e2e''
        (disconnect_service ''deadbeefdeadbeef'' first_session)
     = disconnect_service ''deadbeefdeadbeef'' first_session"
proof -
  have a: "json_loads demo_lib (envelope ''deadbeefdeadbeef'')
             = Some (JObj [(''target_service'', JStr ''deadbeefdeadbeef'')])"
    by (simp add: demo_lib_eval envelope_eval)
  have b: "map_of [(''target_service'', JStr ''deadbeefdeadbeef'')] ''target_service''
             = Some (JStr ''deadbeefdeadbeef'')"
    by simp
  have c: "map_of (connected_services first_session) ''deadbeefdeadbeef'' = None"
    by (simp add: first_session_eval)
  show ?thesis
    using route_to_absent_target [OF a b, of first_session "''6b312e2e2e2e2e2e''"] c by simp
qed

subsection \<open>Frames that fail authentication\<close>







subsection \<open>Start-up without the post-quantum library\<close>

text \<open>
  C7, as stated, fails. \<open>__init__\<close> reads no setting that could require quantum
  protection and never fails: where \<open>import oqs\<close> failed the hub starts without KEM
  and public key and reports itself healthy. Where the import worked and the
  algorithm cannot be made, the hub starts without KEM and public key as well, and
  \<open>GET /health\<close> reports \<open>real_quantum_crypto\<close> true and the library \<open>liboqs-python\<close>.
\<close>

theorem hub_starts_without_kem:
  "kem (new_vpn no_oqs_lib fresh_net demo_tape) = None
   \<and> public_key (new_vpn no_oqs_lib fresh_net demo_tape) = None
   \<and> response_field (health_check no_oqs_lib ''2024-05-01T10:00:00''
        (new_vpn no_oqs_lib fresh_net demo_tape)) ''status'' = Some (JStr ''healthy'')
   \<and> kem (new_vpn no_algorithm_lib fresh_net demo_tape) = None
   \<and> public_key (new_vpn no_algorithm_lib fresh_net demo_tape) = None
   \<and> response_field (health_check no_algorithm_lib ''2024-05-01T10:00:00''
        (new_vpn no_algorithm_lib fresh_net demo_tape)) ''real_quantum_crypto''
      = Some (JBool True)
   \<and> response_field (health_check no_algorithm_lib ''2024-05-01T10:00:00''
        (new_vpn no_algorithm_lib fresh_net demo_tape)) ''quantum_library''
      = Some (JStr ''liboqs-python'')"
  by (simp add: new_vpn_def initialize_quantum_kem_def no_oqs_lib_def no_algorithm_lib_def
      demo_lib_def health_check_def response_field_def)

text \<open>
  C7, amended. Initialisation never fails and there is no mode that requires
  quantum protection: when the library cannot be imported, or the algorithm cannot
  be made, the hub starts with no KEM, no public key and empty dictionaries. When the
  library cannot be imported, \<open>GET /health\<close> answers 200 with \<open>real_quantum_crypto\<close>
  false and \<open>quantum_library\<close> \<open>fallback\<close>.
\<close>

theorem startup_never_fails:
  "(\<not> quantum_available L \<or> oqs_KeyEncapsulation L ''Kyber768'' = None \<longrightarrow>
      kem (new_vpn L net tape) = None \<and> public_key (new_vpn L net tape) = None
      \<and> shared_secrets (new_vpn L net tape) = [] \<and> connected_services (new_vpn L net tape) = [])
   \<and> (\<not> quantum_available L \<longrightarrow>
      response_field (health_check L now (new_vpn L net tape)) ''real_quantum_crypto''
        = Some (JBool False)
      \<and> response_field (health_check L now (new_vpn L net tape)) ''quantum_library''
        = Some (JStr ''fallback''))
   \<and> status_code (health_check L now (new_vpn L net tape)) = 200"
  by (auto simp: new_vpn_def initialize_quantum_kem_def health_check_def response_field_def)

theorem startup_never_fails_witness:
  "kem (new_vpn no_oqs_lib fresh_net demo_tape) = None
   \<and> public_key (new_vpn no_oqs_lib fresh_net demo_tape) = None
   \<and> response_field (health_check no_oqs_lib ''2024-05-01T10:00:00''
        (new_vpn no_oqs_lib fresh_net demo_tape)) ''real_quantum_crypto'' = Some (JBool False)
   \<and> response_field (health_check no_oqs_lib ''2024-05-01T10:00:00''
        (new_vpn no_oqs_lib fresh_net demo_tape)) ''quantum_library'' = Some (JStr ''fallback'')"
proof -
  have a: "\<not> quantum_available no_oqs_lib"
    by (simp add: no_oqs_lib_def)
  show ?thesis
    using startup_never_fails [of no_oqs_lib fresh_net demo_tape "''2024-05-01T10:00:00''"] a
    by simp
qed

subsection \<open>The listener admits every connection\<close>




subsection \<open>The HTTP send endpoint\<close>

text \<open>
  C10. A \<open>POST /send_message\<close> whose body has a truthy \<open>sender\<close>, \<open>target\<close> and
  \<open>message\<close> (a non-empty string is truthy) is answered 200 with the status
  \<open>message_sent\<close>, whatever the state of the hub, so whether or not the target is
  connected; the state after the request is the state before it: the two
  dictionaries are unchanged and no socket has been written to.
\<close>

theorem send_message_is_simulated:
  assumes "truthy (py_get data ''sender'')" and "truthy (py_get data ''target'')"
    and "truthy (py_get data ''message'')"
  shows "send_internal_message (Inr (JObj data)) now clock s
           = (\<lparr>status_code = 200,
               body = JObj [(''status'', JStr ''message_sent''),
                            (''tunnel_id'', JStr (''tunnel_'' @ show_int (int_of_float clock))),
                            (''encryption'', JStr ''ML-KEM-768'')]\<rparr>, s)"
  using assms by (simp add: send_internal_message_def)

theorem send_message_is_simulated_witness:
  "send_internal_message (Inr (JObj send_request)) ''2024-05-01T10:00:00'' stats_clock demo_hub
     = (\<lparr>status_code = 200,
         body = JObj [(''status'', JStr ''message_sent''),
                      (''tunnel_id'', JStr ''tunnel_1714557600''),
                      (''encryption'', JStr ''ML-KEM-768'')]\<rparr>, demo_hub)
   \<and> map_of (connected_services demo_hub) ''not-connected'' = None"
proof -
  have a: "truthy (py_get send_request ''sender'')" "truthy (py_get send_request ''target'')"
    "truthy (py_get send_request ''message'')"
    by (simp_all add: send_request_def py_get_def)
  have b: "show_int (int_of_float stats_clock) = ''1714557600''"
    by (simp add: stats_clock_def int_of_float_def show_int_def char_of_def bit_Suc_0_iff)
  show ?thesis
    using send_message_is_simulated [OF a, of "''2024-05-01T10:00:00''" stats_clock demo_hub] b
    by (simp add: demo_hub_eval)
qed

end
